theory Spec2Isabelle
  imports Main "HOL-Library.Sublist"
begin

section \<open>JavaScript values used by the news widget\<close>

text \<open>
  The article fields and the callback's error argument are JavaScript values that may be
  absent. Three shapes occur: \<open>undefined\<close> (a missing field or an omitted argument),
  \<open>null\<close> (the "no error" argument, or a JSON null) and a string.
\<close>

datatype jsval = Undefined | Null | Str string

text \<open>JavaScript truthiness, as tested by \<open>if (err)\<close> and by \<open>a || b\<close>.\<close>

fun truthy :: "jsval \<Rightarrow> bool" where
  "truthy Undefined = False"
| "truthy Null = False"
| "truthy (Str s) = (s \<noteq> [])"

text \<open>The string a template literal \<open>`${v}`\<close> produces for a value.\<close>

fun to_string :: "jsval \<Rightarrow> string" where
  "to_string Undefined = ''undefined''"
| "to_string Null = ''null''"
| "to_string (Str s) = s"

text \<open>The operator \<open>a || b\<close>: the left operand when it is truthy, the right one otherwise.\<close>

definition js_or :: "jsval \<Rightarrow> jsval \<Rightarrow> jsval" where
  "js_or a b = (if truthy a then a else b)"

text \<open>A default parameter \<open>f(x = d)\<close> applies exactly when the argument is \<open>undefined\<close>.\<close>

definition default_param :: "jsval \<Rightarrow> string \<Rightarrow> jsval" where
  "default_param v d = (case v of Undefined \<Rightarrow> Str d | _ \<Rightarrow> v)"

text \<open>
  Decimal rendering of a non-negative integer, as \<open>`${xhr.status}`\<close> renders the status
  code, and the reading of a decimal numeral back into a number.
\<close>

definition digit_char :: "nat \<Rightarrow> char" where
  "digit_char d = ''0123456789'' ! d"

fun string_of_nat :: "nat \<Rightarrow> string" where
  "string_of_nat n =
     (if n < 10 then [digit_char n]
      else string_of_nat (n div 10) @ [digit_char (n mod 10)])"

declare string_of_nat.simps [simp del]

definition digit_val :: "char \<Rightarrow> nat" where
  "digit_val c = of_char c - 48"

definition nat_of_string :: "string \<Rightarrow> nat" where
  "nat_of_string cs = foldl (\<lambda>acc c. 10 * acc + digit_val c) 0 cs"

section \<open>Articles and the page state\<close>

record article =
  urlToImage :: jsval
  title :: jsval
  url :: jsval
  description :: jsval

text \<open>
  The second argument of the transport's callback: the request object itself on an HTTP
  error, the parsed response (whose \<open>articles\<close> the handler reads) on success.
\<close>

datatype payload = XhrObject nat string | Response "article list"

text \<open>\<open>res.articles\<close>: the request object has no such property.\<close>

fun articles :: "payload \<Rightarrow> article list option" where
  "articles (XhrObject status body) = None"
| "articles (Response arts) = Some arts"

datatype exn = TypeError | SyntaxError

text \<open>A mutation of the content region \<open>newsContent\<close>.\<close>

datatype dom_op = SetInnerHTML string | InsertAfterBegin string

text \<open>
  The part of the page the program reads and writes:
  \<^item> \<open>progress\<close>: how many loading-indicator elements (class \<open>progress\<close>) stand at the start
    of the document body; \<open>showPreloader\<close> inserts one, \<open>querySelector(".progress")\<close> finds
    the first one. Rendered article markup is kept as text and is not searched for that class;
  \<^item> \<open>disabled\<close>: the \<open>disabled\<close> flag of the submit control \<open>render.searchButton\<close>;
  \<^item> \<open>content\<close>: the markup of the content region, in document order, and
    \<open>content_ops\<close>: every mutation applied to the region, oldest first;
  \<^item> \<open>toasts\<close>: the messages passed to \<open>M.toast\<close>; \<open>console\<close>: the lines of \<open>console.log\<close>;
  \<^item> \<open>requests\<close>: the URLs of the GET requests that were sent.
\<close>

record dom =
  progress :: nat
  disabled :: bool
  content :: string
  content_ops :: "dom_op list"
  toasts :: "string list"
  console :: "string list"
  requests :: "string list"

section \<open>Preloader\<close>

definition showPreloader :: "dom \<Rightarrow> dom" where
  "showPreloader s = (s\<lparr>disabled := True\<rparr>)\<lparr>progress := Suc (progress s)\<rparr>"

definition removePreloader :: "dom \<Rightarrow> dom" where
  "removePreloader s =
     (let s1 = s\<lparr>disabled := False\<rparr>
      in if progress s1 \<noteq> 0 then s1\<lparr>progress := progress s1 - 1\<rparr> else s1)"

section \<open>Render\<close>

definition nl :: string where
  "nl = [CHR 0x0A]"

definition dummyImageUrl :: string where
  "dummyImageUrl = ''https://via.placeholder.com/450x337''"

text \<open>The literal text of the card template, cut at its four interpolations.\<close>

definition card_head :: string where
  \<open>card_head =
     ''<div class="col s12 m6">'' @
     nl @
     ''                  <div class="card">'' @
     nl @
     ''                    <div class="card-image">'' @
     nl @
     ''                      <img src="''\<close>

definition card_after_image :: string where
  \<open>card_after_image =
     ''">'' @
     nl @
     ''                    </div>'' @
     nl @
     ''                    <div class="card-content">'' @
     nl @
     ''                    <span class="card-title">''\<close>

definition card_after_title :: string where
  \<open>card_after_title =
     ''</span>'' @
     nl @
     ''                      <p>''\<close>

definition card_after_description :: string where
  \<open>card_after_description =
     ''</p>'' @
     nl @
     ''                    </div>'' @
     nl @
     ''                    <div class="card-action">'' @
     nl @
     ''                      <a href="''\<close>

definition card_tail :: string where
  \<open>card_tail =
     ''">This is a link</a>'' @
     nl @
     ''                    </div>'' @
     nl @
     ''                  </div>'' @
     nl @
     ''                </div>''\<close>

definition rowOpen :: string where
  \<open>rowOpen = ''<div class="row">''\<close>

definition rowClose :: string where
  "rowClose = ''</div>''"

text \<open>\<open>render.template\<close>: the card wired into \<open>renderContent\<close>. It ignores index and length.\<close>

definition template :: "article \<Rightarrow> nat \<Rightarrow> nat \<Rightarrow> string" where
  "template item index len =
     card_head @ to_string (js_or (urlToImage item) (Str dummyImageUrl)) @
     card_after_image @ to_string (title item) @
     card_after_title @ to_string (description item) @
     card_after_description @ to_string (url item) @
     card_tail"

text \<open>
  \<open>render.anotherTemplate\<close>: the row-wrapping card. \<open>+length - 1\<close> is computed on numbers, so
  it is \<open>-1\<close> for length zero and equals no index.
\<close>

definition anotherTemplate :: "article \<Rightarrow> nat \<Rightarrow> nat \<Rightarrow> string" where
  "anotherTemplate item index len =
     (if \<not> (index mod 2 \<noteq> 0) then rowOpen else []) @
     card_head @ to_string (js_or (urlToImage item) (Str dummyImageUrl)) @
     card_after_image @ to_string (title item) @
     card_after_title @ to_string (description item) @
     card_after_description @ to_string (url item) @
     card_tail @
     (if index mod 2 \<noteq> 0 \<or> int index = int len - 1 then rowClose else [])"

definition clearContent :: "dom \<Rightarrow> dom" where
  "clearContent s = s\<lparr>content := [], content_ops := content_ops s @ [SetInnerHTML []]\<rparr>"

text \<open>\<open>newsContent.insertAdjacentHTML("afterbegin", fragment)\<close>.\<close>

definition insertAdjacentHTML_afterbegin :: "string \<Rightarrow> dom \<Rightarrow> dom" where
  "insertAdjacentHTML_afterbegin fragment s =
     s\<lparr>content := fragment @ content s,
       content_ops := content_ops s @ [InsertAfterBegin fragment]\<rparr>"

text \<open>
  The loop \<open>arr.map((item, index, arr) => { fragment += this.template(item, index, arr.length) })\<close>:
  the items still to visit, the index of the next one, the array's length and the text so far.
\<close>

fun map_fragment :: "article list \<Rightarrow> nat \<Rightarrow> nat \<Rightarrow> string \<Rightarrow> string" where
  "map_fragment [] index len fragment = fragment"
| "map_fragment (item # items) index len fragment =
     map_fragment items (Suc index) len (fragment @ template item index len)"

definition renderContent :: "article list \<Rightarrow> dom \<Rightarrow> dom" where
  "renderContent arr s =
     removePreloader (insertAdjacentHTML_afterbegin (map_fragment arr 0 (length arr) []) s)"

section \<open>HTTP\<close>

text \<open>
  What happens to a request after \<open>send\<close>: the \<open>load\<close> event with a status code and a body,
  or the \<open>error\<close> event. \<open>OpenThrows\<close> is \<open>xhr.open\<close> raising before anything is sent.
\<close>

datatype xhr_event = Load nat string | NetworkError | OpenThrows string

type_synonym callback = "jsval \<Rightarrow> payload \<Rightarrow> dom \<Rightarrow> exn + dom"

text \<open>
  \<open>http().get(url, cb)\<close> together with the listener that runs on the request's event.
  \<open>parse\<close> is \<open>JSON.parse\<close> read at the response's shape: \<open>None\<close> when the body is not JSON
  and the parser raises inside the listener. The function covers one request from \<open>send\<close>
  to its event; what the page does in between is not part of it, and a state with several
  requests in flight is built from \<open>showPreloader\<close> directly.
\<close>

definition get :: "(string \<Rightarrow> article list option) \<Rightarrow> string \<Rightarrow> callback \<Rightarrow> xhr_event \<Rightarrow> dom \<Rightarrow> exn + dom" where
  "get parse u cb ev s =
     (case ev of
        OpenThrows msg \<Rightarrow> Inr (s\<lparr>console := console s @ [msg]\<rparr>)
      | NetworkError \<Rightarrow>
          (let s1 = s\<lparr>requests := requests s @ [u]\<rparr>
           in Inr (s1\<lparr>console := console s1 @ [''error'']\<rparr>))
      | Load status body \<Rightarrow>
          (let s1 = s\<lparr>requests := requests s @ [u]\<rparr>
           in if status div 100 \<noteq> 2
              then cb (Str (''Error. Status code '' @ string_of_nat status)) (XhrObject status body) s1
              else (case parse body of
                      None \<Rightarrow> Inl SyntaxError
                    | Some res \<Rightarrow> cb Null (Response res) s1)))"

section \<open>HTTP call\<close>

definition apiKey :: string where
  "apiKey = []"

definition apiUrl :: string where
  "apiUrl = ''https://news-api-v2.herokuapp.com''"

text \<open>
  \<open>httpCall.httpCallback\<close>. \<open>children\<close> is the browser's count of the element children that
  the content region's markup amounts to (\<open>newsContent.children.length\<close>).
\<close>

definition httpCallback :: "(string \<Rightarrow> nat) \<Rightarrow> jsval \<Rightarrow> payload \<Rightarrow> dom \<Rightarrow> exn + dom" where
  "httpCallback children err res s =
     (if truthy err
      then Inr (((removePreloader s)\<lparr>disabled := False\<rparr>)
                  \<lparr>toasts := toasts s @ [to_string err]\<rparr>)
      else (case articles res of
              None \<Rightarrow> Inl TypeError
            | Some arts \<Rightarrow>
                if length arts = 0
                then Inr (((removePreloader s)\<lparr>disabled := False\<rparr>)
                            \<lparr>toasts := toasts s @ [''No news :(''] \<rparr>)
                else Inr (renderContent arts
                            (if children (content s) \<noteq> 0 then clearContent s else s))))"

definition getTopHeadlines ::
  "(string \<Rightarrow> nat) \<Rightarrow> (string \<Rightarrow> article list option) \<Rightarrow> jsval \<Rightarrow> jsval \<Rightarrow> xhr_event \<Rightarrow> dom \<Rightarrow> exn + dom" where
  "getTopHeadlines children parse country category ev s =
     get parse
       (apiUrl @ ''/top-headlines?country='' @ to_string (default_param country ''ru'') @
        ''&category='' @ to_string (default_param category ''technology'') @
        ''&apiKey='' @ apiKey)
       (httpCallback children) ev (showPreloader s)"

definition getEverything ::
  "(string \<Rightarrow> nat) \<Rightarrow> (string \<Rightarrow> article list option) \<Rightarrow> jsval \<Rightarrow> xhr_event \<Rightarrow> dom \<Rightarrow> exn + dom" where
  "getEverything children parse query ev s =
     get parse
       (apiUrl @ ''/everything?q='' @ to_string query @ ''&apiKey='' @ apiKey)
       (httpCallback children) ev (showPreloader s)"

section \<open>Sample data\<close>

text \<open>
  A page that is idle and empty, an article without image and description, and a reading
  of the region's markup in which only empty markup has no element children. They serve as
  concrete inputs.
\<close>

definition blank_page :: dom where
  "blank_page =
     \<lparr>progress = 0, disabled = False, content = [], content_ops = [], toasts = [],
      console = [], requests = []\<rparr>"

definition sample_article :: article where
  "sample_article =
     \<lparr>urlToImage = Undefined, title = Str ''Title'', url = Str ''http://a.b/c'',
      description = Null\<rparr>"

definition sample_children :: "string \<Rightarrow> nat" where
  "sample_children markup = (if markup = [] then 0 else 1)"

section \<open>Auxiliary facts\<close>

lemma removePreloader_eq:
  "removePreloader s = s\<lparr>progress := progress s - 1, disabled := False\<rparr>"
  by (simp add: removePreloader_def Let_def)

lemma status_2xx: "(status div 100 = 2) = (200 \<le> status \<and> status \<le> (299::nat))"
  by arith

lemma digit_val_digit_char: "d < 10 \<Longrightarrow> digit_val (digit_char d) = d"
proof -
  assume "d < 10"
  then have "d \<in> {0, 1, 2, 3, 4, 5, 6, 7, 8, 9}" by auto
  then show ?thesis
    by (auto simp: digit_val_def digit_char_def)
qed

lemma string_of_nat_roundtrip: "nat_of_string (string_of_nat n) = n"
proof (induction n rule: string_of_nat.induct)
  case (1 n)
  show ?case
  proof (cases "n < 10")
    case True
    then show ?thesis
      by (subst string_of_nat.simps) (simp add: nat_of_string_def digit_val_digit_char)
  next
    case False
    with 1 have ih: "nat_of_string (string_of_nat (n div 10)) = n div 10" by simp
    have "digit_val (digit_char (n mod 10)) = n mod 10"
      by (rule digit_val_digit_char) simp
    with False ih show ?thesis
      by (subst string_of_nat.simps) (simp add: nat_of_string_def)
  qed
qed

lemma digit_char_digit: "d < 10 \<Longrightarrow> digit_char d \<in> set ''0123456789''"
proof -
  assume "d < 10"
  then have "d \<in> {0, 1, 2, 3, 4, 5, 6, 7, 8, 9}" by auto
  then show ?thesis
    by (auto simp: digit_char_def)
qed

lemma digit_char_zero: "d < 10 \<Longrightarrow> d \<noteq> 0 \<Longrightarrow> digit_char d \<noteq> CHR ''0''"
proof -
  assume "d < 10" and "d \<noteq> 0"
  then have "d \<in> {1, 2, 3, 4, 5, 6, 7, 8, 9}" by auto
  then show ?thesis
    by (auto simp: digit_char_def)
qed

lemma string_of_nat_nonempty: "string_of_nat n \<noteq> []"
  by (subst string_of_nat.simps) simp

lemma string_of_nat_digits: "set (string_of_nat n) \<subseteq> set ''0123456789''"
proof (induction n rule: string_of_nat.induct)
  case (1 n)
  show ?case
  proof (cases "n < 10")
    case True
    then show ?thesis
      using digit_char_digit [of n] by (subst string_of_nat.simps) simp
  next
    case False
    with 1 have ih: "set (string_of_nat (n div 10)) \<subseteq> set ''0123456789''" by simp
    have "digit_char (n mod 10) \<in> set ''0123456789''"
      by (rule digit_char_digit) simp
    with False ih show ?thesis
      by (subst string_of_nat.simps) simp
  qed
qed

lemma string_of_nat_no_leading_zero: "n \<noteq> 0 \<Longrightarrow> hd (string_of_nat n) \<noteq> CHR ''0''"
proof (induction n rule: string_of_nat.induct)
  case (1 n)
  show ?case
  proof (cases "n < 10")
    case True
    with 1(2) show ?thesis
      using digit_char_zero [of n] by (subst string_of_nat.simps) simp
  next
    case False
    then have "n div 10 \<noteq> 0" by simp
    with 1(1) False have ih: "hd (string_of_nat (n div 10)) \<noteq> CHR ''0''" by simp
    with False show ?thesis
      by (subst string_of_nat.simps) (simp add: string_of_nat_nonempty)
  qed
qed

lemma map_fragment_enumerate:
  "map_fragment items i n frag =
     frag @ concat (map (\<lambda>(k, a). template a k n) (enumerate i items))"
  by (induction items arbitrary: i frag) simp_all

lemma enumerate_map_nth:
  "map (\<lambda>(k, a). f a k) (enumerate 0 xs) = map (\<lambda>k. f (xs ! k) k) [0..<length xs]"
  by (rule nth_equalityI) (simp_all add: nth_enumerate_eq)

lemma map_fragment_concat:
  "map_fragment arr 0 n [] = concat (map (\<lambda>k. template (arr ! k) k n) [0..<length arr])"
  by (simp add: map_fragment_enumerate enumerate_map_nth)

lemma suffix_short:
  "length p \<le> length c \<Longrightarrow> suffix p (x @ c) = suffix p c"
  by (auto simp: suffix_append)

lemma card_head_not_row: "\<not> prefix rowOpen (card_head @ rest)"
  by (simp add: rowOpen_def card_head_def)

lemma card_tail_split: "card_tail = take 83 card_tail @ ''      </div>''"
  by (simp add: card_tail_def nl_def)

lemma card_tail_no_close: "\<not> suffix (rowClose @ rowClose) card_tail"
  apply (subst card_tail_split)
  apply (simp only: rowClose_def append.simps)
  apply (subst suffix_to_prefix)
  apply (simp only: rev_append)
  apply simp
  done

lemma card_tail_length: "length card_tail = 95"
  by (simp add: card_tail_def nl_def)

lemma anotherTemplate_wraps:
  "anotherTemplate item i n =
     (if i mod 2 = 0 then rowOpen else []) @ template item i n @
     (if i mod 2 = 1 \<or> Suc i = n then rowClose else [])"
proof -
  have "(int i = int n - 1) = (Suc i = n)" by auto
  moreover have "(i mod 2 \<noteq> 0) = (i mod 2 = 1)" by presburger
  ultimately show ?thesis
    by (simp add: anotherTemplate_def template_def)
qed

lemma template_ends: "\<exists>x. template item i n = x @ card_tail"
  by (simp add: template_def)

lemma template_starts: "\<exists>x. template item i n = card_head @ x"
  by (simp add: template_def)

lemma row_open_iff: "prefix rowOpen (anotherTemplate item i n) = (i mod 2 = 0)"
proof -
  obtain x where x: "template item i n = card_head @ x"
    using template_starts by blast
  show ?thesis
    by (simp add: anotherTemplate_wraps x card_head_not_row)
qed

lemma row_close_iff:
  "suffix (rowClose @ rowClose) (anotherTemplate item i n) = (i mod 2 = 1 \<or> Suc i = n)"
proof -
  obtain x where x: "template item i n = x @ card_tail"
    using template_ends by blast
  have le: "length (rowClose @ rowClose) \<le> length card_tail"
    by (simp add: card_tail_length rowClose_def)
  show ?thesis
  proof (cases "i mod 2 = 1 \<or> Suc i = n")
    case True
    obtain y where y: "card_tail = y @ rowClose"
      using card_tail_split by (metis append.assoc append_Cons append_Nil rowClose_def)
    have "anotherTemplate item i n =
            (if i mod 2 = 0 then rowOpen else []) @ x @ y @ rowClose @ rowClose"
      using True by (simp add: anotherTemplate_wraps x y)
    then have "suffix (rowClose @ rowClose) (anotherTemplate item i n)"
      by (metis append.assoc suffixI)
    with True show ?thesis by simp
  next
    case False
    then have "anotherTemplate item i n =
                 ((if i mod 2 = 0 then rowOpen else []) @ x) @ card_tail"
      by (simp add: anotherTemplate_wraps x)
    then have "suffix (rowClose @ rowClose) (anotherTemplate item i n)
                 = suffix (rowClose @ rowClose) card_tail"
      by (simp only: suffix_short [OF le])
    with False show ?thesis by (simp add: card_tail_no_close)
  qed
qed

lemma get_load:
  "get parse u cb (Load status body) s =
     (if status div 100 \<noteq> 2
      then cb (Str (''Error. Status code '' @ string_of_nat status)) (XhrObject status body)
             (s\<lparr>requests := requests s @ [u]\<rparr>)
      else (case parse body of
              None \<Rightarrow> Inl SyntaxError
            | Some res \<Rightarrow> cb Null (Response res) (s\<lparr>requests := requests s @ [u]\<rparr>)))"
  by (simp add: get_def Let_def)

lemma httpCallback_truthy:
  "truthy err \<Longrightarrow>
     httpCallback children err res s
       = Inr (s\<lparr>progress := progress s - 1, disabled := False,
                toasts := toasts s @ [to_string err]\<rparr>)"
  by (simp add: httpCallback_def removePreloader_eq)

lemma httpCallback_empty:
  "\<not> truthy err \<Longrightarrow>
     httpCallback children err (Response []) s
       = Inr (s\<lparr>progress := progress s - 1, disabled := False,
                toasts := toasts s @ [''No news :('']\<rparr>)"
  by (simp add: httpCallback_def removePreloader_eq)

lemma httpCallback_articles:
  "\<not> truthy err \<Longrightarrow> arts \<noteq> [] \<Longrightarrow>
     httpCallback children err (Response arts) s
       = Inr (renderContent arts (if children (content s) \<noteq> 0 then clearContent s else s))"
  by (simp add: httpCallback_def)

lemma renderContent_state:
  "renderContent arr s =
     s\<lparr>content := map_fragment arr 0 (length arr) [] @ content s,
       content_ops := content_ops s @ [InsertAfterBegin (map_fragment arr 0 (length arr) [])],
       progress := progress s - 1, disabled := False\<rparr>"
  by (simp add: renderContent_def insertAdjacentHTML_afterbegin_def removePreloader_eq)

lemma string_of_nat_404: "string_of_nat 404 = ''404''"
  by (simp add: string_of_nat.simps digit_char_def)

lemma string_of_nat_500: "string_of_nat 500 = ''500''"
  by (simp add: string_of_nat.simps digit_char_def)

section \<open>The view: rendering\<close>

text \<open>
  Claim C1, as amended. For every article array (of length at least one, and for the empty
  array as well) \<open>renderContent\<close> builds exactly one fragment per article with
  \<open>template\<close>, the fragment of the article at index \<open>k\<close> being
  \<open>template (arr ! k) k (length arr)\<close>; it concatenates them in input order and puts the
  concatenation at the start of the content region by one single insertion, the only mutation
  of the region. Then it removes the first loading indicator of the document when there is
  one: the number of indicators goes down by one, so none is left whenever at most one was
  there before the call, and the submit control is enabled.
\<close>

theorem renderContent_single_insertion:
  "(let frags = map (\<lambda>k. template (arr ! k) k (length arr)) [0..<length arr];
        s' = renderContent arr s
    in length frags = length arr
       \<and> content s' = concat frags @ content s
       \<and> content_ops s' = content_ops s @ [InsertAfterBegin (concat frags)]
       \<and> progress s' = progress s - 1
       \<and> (progress s \<le> 1 \<longrightarrow> progress s' = 0)
       \<and> \<not> disabled s')"
  by (simp add: Let_def renderContent_state map_fragment_concat)

theorem renderContent_single_insertion_witness:
  "progress (showPreloader blank_page) \<le> 1
   \<and> content (renderContent [sample_article, sample_article] (showPreloader blank_page))
       = template sample_article 0 2 @ template sample_article 1 2
   \<and> content_ops (renderContent [sample_article, sample_article] (showPreloader blank_page))
       = [InsertAfterBegin (template sample_article 0 2 @ template sample_article 1 2)]
   \<and> progress (renderContent [sample_article, sample_article] (showPreloader blank_page)) = 0"
  using renderContent_single_insertion
          [of "[sample_article, sample_article]" "showPreloader blank_page"]
  by (simp add: Let_def showPreloader_def blank_page_def upt_rec numeral_2_eq_2)

text \<open>
  The claim as it was stated fails when two requests are in flight: each \<open>showPreloader\<close>
  inserts an indicator of its own and \<open>removePreloader\<close> removes only the first element it
  finds, so one indicator is still present after rendering a one-article array.
\<close>

theorem renderContent_leaves_second_indicator:
  "progress (renderContent [sample_article] (showPreloader (showPreloader blank_page))) = 1"
  by (simp add: renderContent_state showPreloader_def blank_page_def)

text \<open>
  Claim C9. From every state of the content region, \<open>clearContent\<close> followed by
  \<open>renderContent\<close> of the empty array leaves the region empty: the loop over no items
  yields the empty fragment, and inserting it leaves the markup of any region as it was.
\<close>

theorem clearContent_renderContent_empty:
  "content (renderContent [] (clearContent s)) = []
   \<and> map_fragment [] 0 (length ([] :: article list)) [] = []
   \<and> content (renderContent [] t) = content t"
  by (simp add: renderContent_state clearContent_def)

theorem clearContent_renderContent_empty_witness:
  "content (renderContent []
      (clearContent (renderContent [sample_article] (showPreloader blank_page)))) = []"
  by (rule clearContent_renderContent_empty
             [of "renderContent [sample_article] (showPreloader blank_page)", THEN conjunct1])

section \<open>The templates\<close>

text \<open>
  Claim C5. The row-wrapping variant \<open>anotherTemplate\<close> is the plain card with the row-open
  marker in front exactly at the even indices and the row-close marker behind exactly at the
  indices that are odd or equal to the total count minus one. On the output: it begins with
  the row-open marker exactly at the even indices, and it ends with two adjacent closing tags
  (the card's own and the row's) exactly at the indices that are odd or last. For a total
  count of five the rows open at indices 0, 2, 4 and close at indices 1, 3, 4.
\<close>

theorem anotherTemplate_row_markers:
  "anotherTemplate item i n =
     (if i mod 2 = 0 then rowOpen else []) @ template item i n @
     (if i mod 2 = 1 \<or> Suc i = n then rowClose else [])
   \<and> prefix rowOpen (anotherTemplate item i n) = (i mod 2 = 0)
   \<and> suffix (rowClose @ rowClose) (anotherTemplate item i n) = (i mod 2 = 1 \<or> Suc i = n)
   \<and> filter (\<lambda>k. prefix rowOpen (anotherTemplate item k 5)) [0, 1, 2, 3, 4] = [0, 2, 4]
   \<and> filter (\<lambda>k. suffix (rowClose @ rowClose) (anotherTemplate item k 5)) [0, 1, 2, 3, 4]
       = [1, 3, 4]"
proof (intro conjI)
  show "anotherTemplate item i n =
          (if i mod 2 = 0 then rowOpen else []) @ template item i n @
          (if i mod 2 = 1 \<or> Suc i = n then rowClose else [])"
    by (rule anotherTemplate_wraps)
  show "prefix rowOpen (anotherTemplate item i n) = (i mod 2 = 0)"
    by (rule row_open_iff)
  show "suffix (rowClose @ rowClose) (anotherTemplate item i n) = (i mod 2 = 1 \<or> Suc i = n)"
    by (rule row_close_iff)
  show "filter (\<lambda>k. prefix rowOpen (anotherTemplate item k 5)) [0, 1, 2, 3, 4] = [0, 2, 4]"
    by (simp add: row_open_iff)
  show "filter (\<lambda>k. suffix (rowClose @ rowClose) (anotherTemplate item k 5)) [0, 1, 2, 3, 4]
          = [1, 3, 4]"
    by (simp add: row_close_iff)
qed

theorem anotherTemplate_row_markers_witness:
  "prefix rowOpen (anotherTemplate sample_article 4 5)
   \<and> suffix (rowClose @ rowClose) (anotherTemplate sample_article 4 5)
   \<and> \<not> prefix rowOpen (anotherTemplate sample_article 3 5)
   \<and> suffix (rowClose @ rowClose) (anotherTemplate sample_article 3 5)
   \<and> prefix rowOpen (anotherTemplate sample_article 2 5)
   \<and> \<not> suffix (rowClose @ rowClose) (anotherTemplate sample_article 2 5)"
proof -
  note m = anotherTemplate_row_markers [THEN conjunct2]
  note opens = m [THEN conjunct1] and closes = m [THEN conjunct2, THEN conjunct1]
  show ?thesis
    using opens [of sample_article 4 5] closes [of sample_article 4 5]
      opens [of sample_article 3 5] closes [of sample_article 3 5]
      opens [of sample_article 2 5] closes [of sample_article 2 5]
    by simp
qed

text \<open>
  Claim C6. For every article whose \<open>urlToImage\<close> is absent or otherwise falsy
  (\<open>undefined\<close>, \<open>null\<close> or the empty string), the card produced by \<open>template\<close>, the
  function \<open>renderContent\<close> renders with, starts with the card's opening text up to
  \<open>img src="\<close>, followed by the placeholder image URL and the closing quote: the image
  source is the placeholder, which is not empty.
\<close>

theorem template_placeholder_image:
  "\<not> truthy (urlToImage item) \<Longrightarrow>
     template item i n =
       card_head @ dummyImageUrl @ card_after_image @ to_string (title item) @
       card_after_title @ to_string (description item) @
       card_after_description @ to_string (url item) @ card_tail
     \<and> prefix (card_head @ dummyImageUrl @ [CHR 0x22, CHR ''>'']) (template item i n)
     \<and> dummyImageUrl \<noteq> []
     \<and> content (renderContent [item] s) = template item 0 1 @ content s"
proof (intro conjI)
  assume falsy: "\<not> truthy (urlToImage item)"
  then show t: "template item i n =
           card_head @ dummyImageUrl @ card_after_image @ to_string (title item) @
           card_after_title @ to_string (description item) @
           card_after_description @ to_string (url item) @ card_tail"
    by (simp add: template_def js_or_def)
  show "prefix (card_head @ dummyImageUrl @ [CHR 0x22, CHR ''>'']) (template item i n)"
    by (subst t) (simp add: card_after_image_def)
  show "dummyImageUrl \<noteq> []"
    by (simp add: dummyImageUrl_def)
  show "content (renderContent [item] s) = template item 0 1 @ content s"
    by (simp add: renderContent_state)
qed

theorem template_placeholder_image_witness:
  "\<not> truthy (urlToImage sample_article)
   \<and> \<not> truthy (urlToImage (sample_article\<lparr>urlToImage := Str []\<rparr>))
   \<and> prefix (card_head @ dummyImageUrl @ [CHR 0x22, CHR ''>'']) (template sample_article 0 1)
   \<and> prefix (card_head @ dummyImageUrl @ [CHR 0x22, CHR ''>''])
        (template (sample_article\<lparr>urlToImage := Str []\<rparr>) 0 1)"
proof -
  have a: "\<not> truthy (urlToImage sample_article)"
    by (simp add: sample_article_def)
  have b: "\<not> truthy (urlToImage (sample_article\<lparr>urlToImage := Str []\<rparr>))"
    by simp
  note p = template_placeholder_image [THEN conjunct2, THEN conjunct1]
  show ?thesis
    by (intro conjI a b p [OF a] p [OF b])
qed

section \<open>The transport\<close>

text \<open>
  Claim C2. When the \<open>load\<close> event of \<open>get\<close> carries a status code from 200 to 299 and the
  body parses as JSON, the callback receives \<open>null\<close> as its error and the parsed value.
  For every other status code the callback receives as its error the text
  \<open>Error. Status code\<close> followed by the decimal numeral of the status code, from which the
  number can be read back. In both cases the callback runs once, on the state in which the
  request has been sent.
\<close>

theorem get_delivers_by_status:
  "(200 \<le> status \<and> status \<le> 299 \<and> parse body = Some res \<longrightarrow>
      get parse u cb (Load status body) s
        = cb Null (Response res) (s\<lparr>requests := requests s @ [u]\<rparr>))
   \<and> (\<not> (200 \<le> status \<and> status \<le> 299) \<longrightarrow>
      get parse u cb (Load status body) s
        = cb (Str (''Error. Status code '' @ string_of_nat status)) (XhrObject status body)
            (s\<lparr>requests := requests s @ [u]\<rparr>)
      \<and> nat_of_string (drop 19 (''Error. Status code '' @ string_of_nat status)) = status)"
  by (simp add: get_load status_2xx string_of_nat_roundtrip)

theorem get_delivers_by_status_witness:
  "get (\<lambda>body. Some [sample_article]) ''u'' (\<lambda>err res s. Inr (s\<lparr>toasts := [to_string err]\<rparr>))
       (Load 200 ''{}'') blank_page
     = Inr (blank_page\<lparr>requests := [''u''], toasts := [''null'']\<rparr>)
   \<and> get (\<lambda>body. Some [sample_article]) ''u'' (\<lambda>err res s. Inr (s\<lparr>toasts := [to_string err]\<rparr>))
       (Load 404 ''{}'') blank_page
     = Inr (blank_page\<lparr>requests := [''u''], toasts := [''Error. Status code 404'']\<rparr>)"
  using get_delivers_by_status
          [of 200 "\<lambda>body. Some [sample_article]" "''{}''" "[sample_article]" "''u''"
              "\<lambda>err res s. Inr (s\<lparr>toasts := [to_string err]\<rparr>)" blank_page]
        get_delivers_by_status
          [of 404 "\<lambda>body. Some [sample_article]" "''{}''" "[sample_article]" "''u''"
              "\<lambda>err res s. Inr (s\<lparr>toasts := [to_string err]\<rparr>)" blank_page]
  by (simp add: string_of_nat_404 blank_page_def)

text \<open>
  Claim C8. On the \<open>error\<close> event of the request, \<open>get\<close> only writes the line \<open>error\<close> to
  the console. Its result is the same for every callback, so the callback is not invoked.
  For the two operations of the orchestrator this means that the response handler runs
  neither of its branches: no notification is shown, the content region is not touched, and
  the page stays in the loading state, with the indicator inserted by \<open>showPreloader\<close>
  still there and the submit control disabled.
\<close>

theorem get_network_error_only_logs:
  "get parse u cb NetworkError s
     = Inr (s\<lparr>requests := requests s @ [u], console := console s @ [''error'']\<rparr>)
   \<and> getTopHeadlines children parse (Str c) (Str cat) NetworkError s
     = Inr (s\<lparr>disabled := True, progress := Suc (progress s),
              requests := requests s @
                [apiUrl @ ''/top-headlines?country='' @ c @ ''&category='' @ cat @
                 ''&apiKey='' @ apiKey],
              console := console s @ [''error'']\<rparr>)
   \<and> getEverything children parse (Str q) NetworkError s
     = Inr (s\<lparr>disabled := True, progress := Suc (progress s),
              requests := requests s @ [apiUrl @ ''/everything?q='' @ q @ ''&apiKey='' @ apiKey],
              console := console s @ [''error'']\<rparr>)"
  by (simp add: get_def Let_def getTopHeadlines_def getEverything_def showPreloader_def
      default_param_def)

theorem get_network_error_only_logs_witness:
  "get (\<lambda>body. None) ''u'' (\<lambda>err res s. Inl TypeError) NetworkError blank_page
     = Inr (blank_page\<lparr>requests := [''u''], console := [''error'']\<rparr>)"
  using get_network_error_only_logs
          [THEN conjunct1, of "\<lambda>body. None" "''u''" "\<lambda>err res s. Inl TypeError" blank_page]
  by (simp add: blank_page_def)

section \<open>The request orchestrator\<close>

text \<open>
  Claim C7. \<open>getTopHeadlines\<close>, called without arguments, is \<open>getTopHeadlines\<close> with
  country \<open>ru\<close> and category \<open>technology\<close>. With country \<open>c\<close> and category \<open>cat\<close> it
  switches the page to the loading state (submit control disabled, one more indicator) and
  calls the transport with the URL
  \<open>{base}/top-headlines?country={c}&category={cat}&apiKey={k}\<close>, put together by plain
  concatenation, and with \<open>httpCallback\<close> as callback: when the response arrives, the handler
  receives the status error or the parsed response on the state in which the loading state
  is set and the request to that URL has been sent. \<open>getEverything\<close> does the same with the
  URL \<open>{base}/everything?q={q}&apiKey={k}\<close>.
\<close>

theorem getTopHeadlines_getEverything_requests:
  "getTopHeadlines children parse Undefined Undefined ev s
     = getTopHeadlines children parse (Str ''ru'') (Str ''technology'') ev s
   \<and> getTopHeadlines children parse (Str c) (Str cat) ev s
     = get parse
         (apiUrl @ ''/top-headlines?country='' @ c @ ''&category='' @ cat @ ''&apiKey='' @ apiKey)
         (httpCallback children) ev (s\<lparr>disabled := True, progress := Suc (progress s)\<rparr>)
   \<and> getTopHeadlines children parse (Str c) (Str cat) (Load status body) s
     = (let s1 = s\<lparr>disabled := True, progress := Suc (progress s),
                    requests := requests s @
                      [apiUrl @ ''/top-headlines?country='' @ c @ ''&category='' @ cat @
                       ''&apiKey='' @ apiKey]\<rparr>
        in if status div 100 \<noteq> 2
           then httpCallback children (Str (''Error. Status code '' @ string_of_nat status))
                  (XhrObject status body) s1
           else (case parse body of
                   None \<Rightarrow> Inl SyntaxError
                 | Some arts \<Rightarrow> httpCallback children Null (Response arts) s1))
   \<and> getEverything children parse (Str q) ev s
     = get parse (apiUrl @ ''/everything?q='' @ q @ ''&apiKey='' @ apiKey)
         (httpCallback children) ev (s\<lparr>disabled := True, progress := Suc (progress s)\<rparr>)
   \<and> getEverything children parse (Str q) (Load status body) s
     = (let s1 = s\<lparr>disabled := True, progress := Suc (progress s),
                    requests := requests s @
                      [apiUrl @ ''/everything?q='' @ q @ ''&apiKey='' @ apiKey]\<rparr>
        in if status div 100 \<noteq> 2
           then httpCallback children (Str (''Error. Status code '' @ string_of_nat status))
                  (XhrObject status body) s1
           else (case parse body of
                   None \<Rightarrow> Inl SyntaxError
                 | Some arts \<Rightarrow> httpCallback children Null (Response arts) s1))"
  by (simp add: getTopHeadlines_def getEverything_def showPreloader_def default_param_def
      get_load Let_def split: option.split)

theorem getTopHeadlines_getEverything_requests_witness:
  "getTopHeadlines sample_children (\<lambda>body. Some []) Undefined Undefined NetworkError blank_page
     = Inr (blank_page\<lparr>disabled := True, progress := 1,
              requests :=
                [''https://news-api-v2.herokuapp.com/top-headlines?country=ru&category=technology&apiKey=''],
              console := [''error'']\<rparr>)
   \<and> getEverything sample_children (\<lambda>body. Some []) (Str ''mars'') NetworkError blank_page
     = Inr (blank_page\<lparr>disabled := True, progress := 1,
              requests := [''https://news-api-v2.herokuapp.com/everything?q=mars&apiKey=''],
              console := [''error'']\<rparr>)"
proof -
  note r = getTopHeadlines_getEverything_requests
             [of sample_children "\<lambda>body. Some []" NetworkError blank_page
                 "''ru''" "''technology''" _ _ "''mars''"]
  show ?thesis
    using r [THEN conjunct1] r [THEN conjunct2, THEN conjunct1]
      r [THEN conjunct2, THEN conjunct2, THEN conjunct2, THEN conjunct1]
    by (simp add: get_def apiUrl_def apiKey_def blank_page_def)
qed

section \<open>The shared response handler\<close>

text \<open>
  Claim C3. Whenever the handler is called with an error that is present (truthy, as
  \<open>if (err)\<close> tests it), it removes the loading indicator (the first one of the document,
  if there is any), enables the submit control, shows the error's text as a notification
  and stops: the content region, its mutation history and everything else stay as they
  were. For a response with a status code outside 200 to 299 the handler, reached through
  \<open>get\<close>, leaves the submit control enabled and shows a text that contains the numeric
  status code: the text is \<open>Error. Status code\<close> followed by the decimal numeral of that
  very status code, that is, by decimal digits without a leading zero whose value, read
  back, is the status code of the response.
\<close>

theorem httpCallback_error_branch:
  "(truthy err \<longrightarrow>
      httpCallback children err res s
        = Inr (s\<lparr>progress := progress s - 1, disabled := False,
                 toasts := toasts s @ [to_string err]\<rparr>))
   \<and> (status div 100 \<noteq> 2 \<longrightarrow>
      truthy (Str (''Error. Status code '' @ string_of_nat status))
      \<and> suffix (string_of_nat status) (''Error. Status code '' @ string_of_nat status)
      \<and> get parse u (httpCallback children) (Load status body) s
          = Inr (s\<lparr>requests := requests s @ [u], progress := progress s - 1,
                   disabled := False,
                   toasts := toasts s @ [''Error. Status code '' @ string_of_nat status]\<rparr>)
      \<and> (\<exists>s'. get parse u (httpCallback children) (Load status body) s = Inr s'
             \<and> \<not> disabled s'
             \<and> take 19 (last (toasts s')) = ''Error. Status code ''
             \<and> nat_of_string (drop 19 (last (toasts s'))) = status
             \<and> set (drop 19 (last (toasts s'))) \<subseteq> set ''0123456789''
             \<and> (status \<noteq> 0 \<longrightarrow> hd (drop 19 (last (toasts s'))) \<noteq> CHR ''0'')))"
proof (intro conjI impI)
  assume "truthy err"
  then show "httpCallback children err res s
        = Inr (s\<lparr>progress := progress s - 1, disabled := False,
                 toasts := toasts s @ [to_string err]\<rparr>)"
    by (rule httpCallback_truthy)
next
  show "truthy (Str (''Error. Status code '' @ string_of_nat status))"
    by simp
next
  show "suffix (string_of_nat status) (''Error. Status code '' @ string_of_nat status)"
    by (rule suffixI) simp
next
  assume non2xx: "status div 100 \<noteq> 2"
  then show g: "get parse u (httpCallback children) (Load status body) s
          = Inr (s\<lparr>requests := requests s @ [u], progress := progress s - 1,
                   disabled := False,
                   toasts := toasts s @ [''Error. Status code '' @ string_of_nat status]\<rparr>)"
    by (simp add: httpCallback_truthy get_load)
  show "\<exists>s'. get parse u (httpCallback children) (Load status body) s = Inr s'
             \<and> \<not> disabled s'
             \<and> take 19 (last (toasts s')) = ''Error. Status code ''
             \<and> nat_of_string (drop 19 (last (toasts s'))) = status
             \<and> set (drop 19 (last (toasts s'))) \<subseteq> set ''0123456789''
             \<and> (status \<noteq> 0 \<longrightarrow> hd (drop 19 (last (toasts s'))) \<noteq> CHR ''0'')"
    unfolding g
    using string_of_nat_digits [of status] string_of_nat_no_leading_zero [of status]
    by (simp add: string_of_nat_roundtrip)
qed

theorem httpCallback_error_branch_witness:
  "truthy (Str ''Error. Status code 404'')
   \<and> httpCallback sample_children (Str ''Error. Status code 404'') (XhrObject 404 [])
        ((showPreloader blank_page)\<lparr>content := ''old''\<rparr>)
      = Inr (blank_page\<lparr>content := ''old'', toasts := [''Error. Status code 404'']\<rparr>)
   \<and> get (\<lambda>body. None) ''u'' (httpCallback sample_children) (Load 404 []) (showPreloader blank_page)
      = Inr (blank_page\<lparr>requests := [''u''], toasts := [''Error. Status code 404'']\<rparr>)
   \<and> get (\<lambda>body. None) ''u'' (httpCallback sample_children) (Load 500 []) (showPreloader blank_page)
      = Inr (blank_page\<lparr>requests := [''u''], toasts := [''Error. Status code 500'']\<rparr>)"
proof -
  have t: "truthy (Str ''Error. Status code 404'')" by simp
  have d: "(404::nat) div 100 \<noteq> 2" by simp
  have d5: "(500::nat) div 100 \<noteq> 2" by simp
  note e = httpCallback_error_branch
             [of "Str ''Error. Status code 404''" sample_children "XhrObject 404 []"
                 "(showPreloader blank_page)\<lparr>content := ''old''\<rparr>" 404 "\<lambda>body. None" "''u''"
                 "[]"]
  note g = httpCallback_error_branch
             [of "Str ''Error. Status code 404''" sample_children "XhrObject 404 []"
                 "showPreloader blank_page" 404 "\<lambda>body. None" "''u''" "[]"]
  note h = httpCallback_error_branch
             [of "Str ''Error. Status code 404''" sample_children "XhrObject 404 []"
                 "showPreloader blank_page" 500 "\<lambda>body. None" "''u''" "[]"]
  show ?thesis
    using t d d5 e [THEN conjunct1] g [THEN conjunct2] h [THEN conjunct2]
    by (simp add: string_of_nat_404 string_of_nat_500 showPreloader_def blank_page_def)
qed

text \<open>
  Claim C4. For every response whose \<open>articles\<close> sequence is empty (and no error), the
  handler clears the loading state (it removes the first loading indicator, if there is any,
  and enables the submit control), shows the fixed notification \<open>No news :(\<close> and stops.
  The content region is not mutated: its markup and its mutation history are what they were,
  so content rendered earlier stays.
\<close>

theorem httpCallback_no_articles:
  "\<not> truthy err \<Longrightarrow>
     httpCallback children err (Response []) s
       = Inr (s\<lparr>progress := progress s - 1, disabled := False,
                toasts := toasts s @ [''No news :('']\<rparr>)
     \<and> (\<forall>s'. httpCallback children err (Response []) s = Inr s' \<longrightarrow>
            content s' = content s \<and> content_ops s' = content_ops s \<and> \<not> disabled s')"
  by (simp add: httpCallback_empty)

theorem httpCallback_no_articles_witness:
  "\<not> truthy Null
   \<and> httpCallback sample_children Null (Response [])
        (showPreloader (renderContent [sample_article] blank_page))
      = Inr ((renderContent [sample_article] blank_page)\<lparr>toasts := [''No news :('']\<rparr>)"
proof -
  have n: "\<not> truthy Null" by simp
  show ?thesis
    using n httpCallback_no_articles
              [OF n, of sample_children "showPreloader (renderContent [sample_article] blank_page)"]
    by (simp add: showPreloader_def renderContent_state blank_page_def)
qed

text \<open>
  Claim C10, as amended. Every path of the handler that returns (an error that is present;
  no error and an empty \<open>articles\<close> sequence; no error and a non-empty one) ends with the
  submit control enabled and with one loading indicator fewer than before, so with none when
  at most one was present before the call. On the success path the handler's result is
  that of \<open>renderContent\<close>, which ends with \<open>removePreloader\<close>; \<open>removePreloader\<close> enables
  the submit control and removes the first indicator if there is one.
\<close>

theorem httpCallback_ends_interactive:
  "(truthy err \<or> articles res \<noteq> None \<longrightarrow>
      (\<exists>s'. httpCallback children err res s = Inr s'
            \<and> \<not> disabled s' \<and> progress s' = progress s - 1
            \<and> (progress s \<le> 1 \<longrightarrow> progress s' = 0)))
   \<and> (\<not> truthy err \<and> arts \<noteq> [] \<longrightarrow>
        httpCallback children err (Response arts) s
          = Inr (renderContent arts (if children (content s) \<noteq> 0 then clearContent s else s)))
   \<and> renderContent arts t
       = removePreloader (insertAdjacentHTML_afterbegin (map_fragment arts 0 (length arts) []) t)
   \<and> \<not> disabled (removePreloader t)
   \<and> progress (removePreloader t) = progress t - 1"
proof (intro conjI impI)
  assume "truthy err \<or> articles res \<noteq> None"
  then show "\<exists>s'. httpCallback children err res s = Inr s'
            \<and> \<not> disabled s' \<and> progress s' = progress s - 1
            \<and> (progress s \<le> 1 \<longrightarrow> progress s' = 0)"
    by (auto simp add: httpCallback_def removePreloader_eq renderContent_state clearContent_def)
next
  assume "\<not> truthy err \<and> arts \<noteq> []"
  then show "httpCallback children err (Response arts) s
          = Inr (renderContent arts (if children (content s) \<noteq> 0 then clearContent s else s))"
    by (simp add: httpCallback_articles)
next
  show "renderContent arts t
       = removePreloader (insertAdjacentHTML_afterbegin (map_fragment arts 0 (length arts) []) t)"
    by (simp add: renderContent_def)
next
  show "\<not> disabled (removePreloader t)"
    by (simp add: removePreloader_eq)
next
  show "progress (removePreloader t) = progress t - 1"
    by (simp add: removePreloader_eq)
qed

theorem httpCallback_ends_interactive_witness:
  "\<not> truthy Null \<and> articles (Response [sample_article]) \<noteq> None
   \<and> progress ((showPreloader blank_page)\<lparr>content := ''old''\<rparr>) \<le> 1
   \<and> httpCallback sample_children Null (Response [sample_article])
        ((showPreloader blank_page)\<lparr>content := ''old''\<rparr>)
      = Inr (blank_page\<lparr>content := template sample_article 0 1,
               content_ops := [SetInnerHTML [], InsertAfterBegin (template sample_article 0 1)]\<rparr>)"
proof -
  note h = httpCallback_ends_interactive
             [of Null "Response [sample_article]" sample_children
                 "(showPreloader blank_page)\<lparr>content := ''old''\<rparr>" "[sample_article]"]
  show ?thesis
    using h [THEN conjunct2, THEN conjunct1]
    by (simp add: showPreloader_def blank_page_def sample_children_def renderContent_state
        clearContent_def)
qed

text \<open>
  The claim as it was stated fails when two requests are in flight: the handler of the
  first response, here a status error, removes one of the two indicators and enables the
  submit control, and the other indicator is still present when the handler returns.
\<close>

theorem httpCallback_leaves_second_indicator:
  "httpCallback sample_children (Str ''Error. Status code 500'') (XhrObject 500 [])
     (showPreloader (showPreloader blank_page))
     = Inr (blank_page\<lparr>progress := 1, toasts := [''Error. Status code 500'']\<rparr>)"
  by (simp add: httpCallback_truthy showPreloader_def blank_page_def)


end
